theory Spec2Isabelle
  imports Main
begin

section \<open>Python values\<close>

text \<open>
  The values that travel through the client: what \<^verbatim>\<open>response.json()\<close> decodes to, what a
  command dictionary holds, and what the fields of a result hold (the dataclass does not
  enforce its annotations). Strings are byte strings (UTF-8); numbers are the integers
  (a number with a fraction is not modelled). A dictionary is an association list with
  distinct keys, in insertion order.
\<close>

datatype pyval =
    PNone
  | PBool bool
  | PInt int
  | PStr string
  | PList "pyval list"
  | PDict "(string \<times> pyval) list"

text \<open>Truth value of an object, as tested by \<^verbatim>\<open>if x\<close>, \<^verbatim>\<open>x or y\<close>.\<close>

fun truthy :: "pyval \<Rightarrow> bool" where
  "truthy PNone = False"
| "truthy (PBool b) = b"
| "truthy (PInt i) = (i \<noteq> 0)"
| "truthy (PStr s) = (s \<noteq> [])"
| "truthy (PList xs) = (xs \<noteq> [])"
| "truthy (PDict kvs) = (kvs \<noteq> [])"

text \<open>\<^verbatim>\<open>d.get(k, default)\<close> on a dictionary.\<close>

definition dict_get :: "(string \<times> pyval) list \<Rightarrow> string \<Rightarrow> pyval \<Rightarrow> pyval" where
  "dict_get d k dflt = (case map_of d k of None \<Rightarrow> dflt | Some v \<Rightarrow> v)"

text \<open>\<^verbatim>\<open>type(x).__name__\<close>, as it appears in the message of an AttributeError.\<close>

fun type_name :: "pyval \<Rightarrow> string" where
  "type_name PNone = ''NoneType''"
| "type_name (PBool b) = ''bool''"
| "type_name (PInt i) = ''int''"
| "type_name (PStr s) = ''str''"
| "type_name (PList xs) = ''list''"
| "type_name (PDict kvs) = ''dict''"

subsection \<open>Strings\<close>

text \<open>
  \<^verbatim>\<open>str.upper\<close> and \<^verbatim>\<open>str.lower\<close> on the ASCII letters; every other byte is kept, so
  the two functions are those of Python on ASCII text. On text outside ASCII Python maps
  letters to other text outside ASCII, with two exceptions when lower-casing (the dotted
  capital I becomes \<^verbatim>\<open>i\<close> and a combining dot, the Kelvin sign becomes \<^verbatim>\<open>k\<close>); neither can
  complete a keyword the script searches for, so its substring tests are decided here as
  in Python. Upper-casing a method name outside ASCII is not covered.
\<close>

definition upper_char :: "char \<Rightarrow> char" where
  "upper_char c =
     (let n = (of_char c :: nat) in if 97 \<le> n \<and> n \<le> 122 then char_of (n - 32) else c)"

definition lower_char :: "char \<Rightarrow> char" where
  "lower_char c =
     (let n = (of_char c :: nat) in if 65 \<le> n \<and> n \<le> 90 then char_of (n + 32) else c)"

definition str_upper :: "string \<Rightarrow> string" where
  "str_upper s = map upper_char s"

definition str_lower :: "string \<Rightarrow> string" where
  "str_lower s = map lower_char s"

text \<open>\<^verbatim>\<open>s.startswith(p)\<close> and the substring test \<^verbatim>\<open>p in s\<close>.\<close>

fun starts_with :: "string \<Rightarrow> string \<Rightarrow> bool" where
  "starts_with s [] = True"
| "starts_with [] (p # ps) = False"
| "starts_with (c # s) (p # ps) = (c = p \<and> starts_with s ps)"

fun contains :: "string \<Rightarrow> string \<Rightarrow> bool" where
  "contains p [] = (p = [])"
| "contains p (c # s) = (starts_with (c # s) p \<or> contains p s)"

text \<open>\<^verbatim>\<open>sep.join(xs)\<close>.\<close>

fun join :: "string \<Rightarrow> string list \<Rightarrow> string" where
  "join sep [] = []"
| "join sep [x] = x"
| "join sep (x # y # ys) = x @ sep @ join sep (y # ys)"

subsection \<open>\<^verbatim>\<open>str\<close> and \<^verbatim>\<open>repr\<close>\<close>

definition digit_char :: "nat \<Rightarrow> char" where
  "digit_char d = char_of (48 + d)"

fun str_nat :: "nat \<Rightarrow> string" where
  "str_nat n = (if n < 10 then [digit_char n] else str_nat (n div 10) @ [digit_char (n mod 10)])"

definition str_int :: "int \<Rightarrow> string" where
  "str_int i = (if i < 0 then CHR ''-'' # str_nat (nat (- i)) else str_nat (nat i))"

definition hex_char :: "nat \<Rightarrow> char" where
  "hex_char d = (if d < 10 then char_of (48 + d) else char_of (87 + d))"

text \<open>
  \<^verbatim>\<open>repr\<close> of a string: double quotes when the text has a single quote and no double
  quote, single quotes otherwise; the quote and the backslash are escaped, tab, newline
  and carriage return are written \<^verbatim>\<open>\t\<close>, \<^verbatim>\<open>\n\<close>, \<^verbatim>\<open>\r\<close>, the other control characters
  \<^verbatim>\<open>\xhh\<close>. Bytes outside ASCII are copied.
\<close>

definition repr_char :: "char \<Rightarrow> char \<Rightarrow> string" where
  "repr_char q c =
     (let n = (of_char c :: nat) in
      if c = q \<or> c = CHR 0x5C then [CHR 0x5C, c]
      else if n = 9 then [CHR 0x5C, CHR ''t'']
      else if n = 10 then [CHR 0x5C, CHR ''n'']
      else if n = 13 then [CHR 0x5C, CHR ''r'']
      else if n < 32 \<or> n = 127 then [CHR 0x5C, CHR ''x'', hex_char (n div 16), hex_char (n mod 16)]
      else [c])"

definition repr_str :: "string \<Rightarrow> string" where
  "repr_str s =
     (let q = (if CHR 0x27 \<in> set s \<and> CHR 0x22 \<notin> set s then CHR 0x22 else CHR 0x27)
      in q # concat (map (repr_char q) s) @ [q])"

fun py_repr :: "pyval \<Rightarrow> string" where
  "py_repr PNone = ''None''"
| "py_repr (PBool b) = (if b then ''True'' else ''False'')"
| "py_repr (PInt i) = str_int i"
| "py_repr (PStr s) = repr_str s"
| "py_repr (PList xs) = ''['' @ join '', '' (map py_repr xs) @ '']''"
| "py_repr (PDict kvs) =
     ''{'' @ join '', '' (map (\<lambda>kv. repr_str (fst kv) @ '': '' @ py_repr (snd kv)) kvs) @ ''}''"

text \<open>\<^verbatim>\<open>str(x)\<close>, which is also what an f-string field \<^verbatim>\<open>{x}\<close> inserts.\<close>

fun py_str :: "pyval \<Rightarrow> string" where
  "py_str (PStr s) = s"
| "py_str v = py_repr v"

section \<open>Exceptions and the HTTP transport\<close>

text \<open>
  An exception is its class, as far as the handlers tell classes apart, and its message
  \<^verbatim>\<open>str(e)\<close>. \<open>ConnectionError\<close> stands for \<^verbatim>\<open>requests.exceptions.ConnectionError\<close>
  and its subclasses, \<open>OtherException\<close> for every other subclass of \<^verbatim>\<open>Exception\<close>.
  Signals outside \<^verbatim>\<open>Exception\<close> (a keyboard interrupt, an exit), which no handler of the
  source catches, are not modelled.
\<close>

datatype pyexn = ConnectionError string | OtherException string

fun exn_str :: "pyexn \<Rightarrow> string" where
  "exn_str (ConnectionError m) = m"
| "exn_str (OtherException m) = m"

text \<open>
  A response: its status code and what \<^verbatim>\<open>response.json()\<close> does, which either raises a
  decoding error (\<open>Inl\<close> its message) or returns the decoded body.
\<close>

record response =
  status_code :: int
  json :: "string + pyval"

datatype http_result = Raises pyexn | Responds response

text \<open>
  The server is the sequence of outcomes of the requests made, in order: the outcome of
  the \<open>n\<close>-th request (from 0) is \<open>srv n\<close>. Every request returns or raises; the source
  sets no timeout, and a request that never returns has no place in this sequence.
\<close>

type_synonym server = "nat \<Rightarrow> http_result"

text \<open>What the program does to the outside: requests, console lines and pauses
  (in milliseconds).\<close>

datatype event =
    Request string string "pyval option"
  | Print string
  | Sleep nat

record world =
  sent :: nat
  trace :: "event list"

definition emit :: "event \<Rightarrow> world \<Rightarrow> world" where
  "emit e w = w\<lparr>trace := trace w @ [e]\<rparr>"

definition http_call :: "server \<Rightarrow> string \<Rightarrow> string \<Rightarrow> pyval option \<Rightarrow> world
    \<Rightarrow> (pyexn + response) \<times> world" where
  "http_call srv method url payload w =
     (case srv (sent w) of Raises e \<Rightarrow> Inl e | Responds r \<Rightarrow> Inr r,
      \<lparr>sent = sent w + 1, trace = trace w @ [Request method url payload]\<rparr>)"

text \<open>\<^verbatim>\<open>requests.get(url)\<close> and \<^verbatim>\<open>requests.post(url, json=payload)\<close>.\<close>

definition requests_get :: "server \<Rightarrow> string \<Rightarrow> world \<Rightarrow> (pyexn + response) \<times> world" where
  "requests_get srv url w = http_call srv ''GET'' url None w"

definition requests_post :: "server \<Rightarrow> string \<Rightarrow> pyval option \<Rightarrow> world
    \<Rightarrow> (pyexn + response) \<times> world" where
  "requests_post srv url payload w = http_call srv ''POST'' url payload w"

text \<open>\<^verbatim>\<open>response.json()\<close>.\<close>

definition response_json :: "response \<Rightarrow> pyexn + pyval" where
  "response_json r = (case json r of Inl m \<Rightarrow> Inl (OtherException m) | Inr v \<Rightarrow> Inr v)"

text \<open>The method call \<^verbatim>\<open>x.get(k, default)\<close>: an AttributeError unless \<open>x\<close> is a dictionary.\<close>

definition no_attribute :: "pyval \<Rightarrow> string \<Rightarrow> pyexn" where
  "no_attribute v a =
     OtherException
       ([CHR 0x27] @ type_name v @ [CHR 0x27] @ '' object has no attribute '' @ [CHR 0x27] @ a @ [CHR 0x27])"

definition py_get :: "pyval \<Rightarrow> string \<Rightarrow> pyval \<Rightarrow> pyexn + pyval" where
  "py_get v k dflt = (case v of PDict d \<Rightarrow> Inr (dict_get d k dflt) | _ \<Rightarrow> Inl (no_attribute v ''get''))"

text \<open>The method call \<^verbatim>\<open>x.lower()\<close>: an AttributeError unless \<open>x\<close> is a string.\<close>

definition py_lower :: "pyval \<Rightarrow> pyexn + string" where
  "py_lower v = (case v of PStr s \<Rightarrow> Inr (str_lower s) | _ \<Rightarrow> Inl (no_attribute v ''lower''))"

section \<open>The request wrapper (voiceover\_client.py)\<close>

record VoiceOverResponse =
  success :: pyval
  message :: pyval
  currentItem :: pyval
  responses :: pyval
  error :: pyval

text \<open>\<^verbatim>\<open>VoiceOverResponse(success=False, error=msg)\<close>.\<close>

definition failure :: "string \<Rightarrow> VoiceOverResponse" where
  "failure msg =
     \<lparr>success = PBool False, message = PNone, currentItem = PNone, responses = PNone,
      error = PStr msg\<rparr>"

record VoiceOverClient =
  base_url :: string

definition default_client :: VoiceOverClient where
  "default_client = \<lparr>base_url = ''http://localhost:3000''\<rparr>"

text \<open>The body of the \<^verbatim>\<open>try\<close> block of \<^verbatim>\<open>_make_request\<close>.\<close>

definition make_request_try :: "server \<Rightarrow> VoiceOverClient \<Rightarrow> string \<Rightarrow> string \<Rightarrow> pyval \<Rightarrow> world
    \<Rightarrow> (pyexn + VoiceOverResponse) \<times> world" where
  "make_request_try srv self method endpoint data w =
     (let url = base_url self @ endpoint in
      case (if str_upper method = ''GET'' then requests_get srv url w
            else if str_upper method = ''POST''
              then requests_post srv url (Some (if truthy data then data else PDict [])) w
            else (Inl (OtherException (''Unsupported method: '' @ method)), w)) of
        (Inl e, w') \<Rightarrow> (Inl e, w')
      | (Inr rsp, w') \<Rightarrow>
          (case response_json rsp of
             Inl e \<Rightarrow> (Inl e, w')
           | Inr result \<Rightarrow>
               (case result of
                  PDict d \<Rightarrow>
                    (Inr \<lparr>success = dict_get d ''success'' (PBool False),
                          message = dict_get d ''message'' PNone,
                          currentItem = dict_get d ''currentItem'' PNone,
                          responses = dict_get d ''responses'' PNone,
                          error = dict_get d ''error'' PNone\<rparr>, w')
                | _ \<Rightarrow> (Inl (no_attribute result ''get''), w'))))"

text \<open>\<^verbatim>\<open>_make_request\<close>: the \<^verbatim>\<open>try\<close> block under its two handlers.\<close>

definition connect_error_message :: string where
  "connect_error_message =
     ''Could not connect to VoiceOver server. Make sure it'' @ [CHR 0x27] @ ''s running.''"

definition make_request :: "server \<Rightarrow> VoiceOverClient \<Rightarrow> string \<Rightarrow> string \<Rightarrow> pyval \<Rightarrow> world
    \<Rightarrow> (pyexn + VoiceOverResponse) \<times> world" where
  "make_request srv self method endpoint data w =
     (case make_request_try srv self method endpoint data w of
        (Inr r, w') \<Rightarrow> (Inr r, w')
      | (Inl (ConnectionError m), w') \<Rightarrow>
          (Inr (failure connect_error_message), w')
      | (Inl (OtherException m), w') \<Rightarrow> (Inr (failure m), w'))"

text \<open>The endpoint methods of \<^verbatim>\<open>VoiceOverClient\<close>.\<close>

definition start_voiceover :: "server \<Rightarrow> VoiceOverClient \<Rightarrow> world
    \<Rightarrow> (pyexn + VoiceOverResponse) \<times> world" where
  "start_voiceover srv self w = make_request srv self ''POST'' ''/voiceover/start'' PNone w"

definition stop_voiceover :: "server \<Rightarrow> VoiceOverClient \<Rightarrow> world
    \<Rightarrow> (pyexn + VoiceOverResponse) \<times> world" where
  "stop_voiceover srv self w = make_request srv self ''POST'' ''/voiceover/stop'' PNone w"




definition get_current_item :: "server \<Rightarrow> VoiceOverClient \<Rightarrow> world
    \<Rightarrow> (pyexn + VoiceOverResponse) \<times> world" where
  "get_current_item srv self w = make_request srv self ''GET'' ''/voiceover/current'' PNone w"




definition open_copilot_and_send_message :: "server \<Rightarrow> VoiceOverClient \<Rightarrow> pyval \<Rightarrow> world
    \<Rightarrow> (pyexn + VoiceOverResponse) \<times> world" where
  "open_copilot_and_send_message srv self msg w =
     make_request srv self ''POST'' ''/operations/open-copilot-and-send-message''
       (PDict [(''message'', msg)]) w"

definition health_check :: "server \<Rightarrow> VoiceOverClient \<Rightarrow> world
    \<Rightarrow> (pyexn + VoiceOverResponse) \<times> world" where
  "health_check srv self w = make_request srv self ''GET'' ''/health'' PNone w"

subsection \<open>The command dispatcher\<close>




section \<open>The scripted scenario (main.py)\<close>

subsection \<open>Console text\<close>

text \<open>The pictographs of the console lines, as their UTF-8 bytes.\<close>

definition direct_hit :: string where
  "direct_hit = [CHR 0xF0, CHR 0x9F, CHR 0x8E, CHR 0xAF]"

definition check_mark :: string where
  "check_mark = [CHR 0xE2, CHR 0x9C, CHR 0x85]"

definition bar_chart :: string where
  "bar_chart = [CHR 0xF0, CHR 0x9F, CHR 0x93, CHR 0x8A]"

definition cross_mark :: string where
  "cross_mark = [CHR 0xE2, CHR 0x9D, CHR 0x8C]"

definition light_bulb :: string where
  "light_bulb = [CHR 0xF0, CHR 0x9F, CHR 0x92, CHR 0xA1]"

definition warning_sign :: string where
  "warning_sign = [CHR 0xE2, CHR 0x9A, CHR 0xA0, CHR 0xEF, CHR 0xB8, CHR 0x8F]"

definition alarm_clock :: string where
  "alarm_clock = [CHR 0xE2, CHR 0x8F, CHR 0xB0]"

definition magnifier :: string where
  "magnifier = [CHR 0xF0, CHR 0x9F, CHR 0x94, CHR 0x8D]"

definition replacement_char :: string where
  "replacement_char = [CHR 0xEF, CHR 0xBF, CHR 0xBD]"

definition pushpin :: string where
  "pushpin = [CHR 0xF0, CHR 0x9F, CHR 0x93, CHR 0x8D]"

definition keyboard :: string where
  "keyboard = [CHR 0xE2, CHR 0x8C, CHR 0xA8, CHR 0xEF, CHR 0xB8, CHR 0x8F]"

definition mouse :: string where
  "mouse = [CHR 0xF0, CHR 0x9F, CHR 0x96, CHR 0xB1, CHR 0xEF, CHR 0xB8, CHR 0x8F]"

definition loudspeaker :: string where
  "loudspeaker = [CHR 0xF0, CHR 0x9F, CHR 0x93, CHR 0xA2]"

definition party_popper :: string where
  "party_popper = [CHR 0xF0, CHR 0x9F, CHR 0x8E, CHR 0x89]"

text \<open>A status line: three spaces, a pictograph, the text.\<close>

definition line :: "string \<Rightarrow> string \<Rightarrow> string" where
  "line icon text = ''   '' @ icon @ text"

subsection \<open>Sequencing\<close>

text \<open>
  A statement runs in a world and either raises or yields a value; \<open>then_do\<close> runs the
  rest only when the first part did not raise.
\<close>

definition then_do :: "(pyexn + 'a) \<times> world \<Rightarrow> ('a \<Rightarrow> world \<Rightarrow> (pyexn + 'b) \<times> world)
    \<Rightarrow> (pyexn + 'b) \<times> world" where
  "then_do m f = (case m of (Inl e, w) \<Rightarrow> (Inl e, w) | (Inr x, w) \<Rightarrow> f x w)"

definition script_base_url :: string where
  "script_base_url = ''http://localhost:3000''"

text \<open>Whether the function goes on to its next step or has returned.\<close>

datatype flow = Proceed | Returned

subsection \<open>Step 1: health check\<close>

definition health_try :: "server \<Rightarrow> world \<Rightarrow> (pyexn + flow) \<times> world" where
  "health_try srv w =
     then_do (requests_get srv (script_base_url @ ''/health'') w) (\<lambda>rsp w.
       if status_code rsp = 200 then
         then_do (response_json rsp, w) (\<lambda>data w.
         then_do (Inr (), emit (Print (line check_mark '' Server running normally'')) w) (\<lambda>_ w.
         then_do (py_get data ''voiceOverRunning'' PNone, w) (\<lambda>running w.
           (Inr Proceed,
            emit (Print (line bar_chart '' VoiceOver status: ''
                    @ (if truthy running then ''Running'' else ''Not running''))) w))))
       else
         (Inr Returned,
          emit (Print (line cross_mark '' Server error: '' @ str_int (status_code rsp))) w))"

definition health_step :: "server \<Rightarrow> world \<Rightarrow> flow \<times> world" where
  "health_step srv w =
     (case health_try srv (emit (Print ''1. Checking server status...'') w) of
        (Inr f, w') \<Rightarrow> (f, w')
      | (Inl e, w') \<Rightarrow>
          (Returned, emit (Print (line cross_mark '' Connection failed: '' @ exn_str e)) w'))"

subsection \<open>Step 2: start the screen reader\<close>

definition start_try :: "server \<Rightarrow> world \<Rightarrow> (pyexn + flow) \<times> world" where
  "start_try srv w =
     then_do (requests_post srv (script_base_url @ ''/voiceover/start'') None w) (\<lambda>rsp w.
     then_do (response_json rsp, w) (\<lambda>result w.
     then_do (py_get result ''success'' PNone, w) (\<lambda>ok w.
       if truthy ok then
         (Inr Proceed, emit (Print (line check_mark '' VoiceOver started successfully'')) w)
       else
         then_do (py_get result ''error'' PNone, w) (\<lambda>err w.
         then_do (Inr (), emit (Print (line cross_mark '' VoiceOver startup failed: ''
                                  @ py_str err)) w) (\<lambda>_ w.
         then_do (py_get result ''error'' (PStr []), w) (\<lambda>err' w.
           (Inr Returned,
            if contains ''VoiceOver not supported'' (py_str err')
            then emit (Print (line light_bulb
                   '' Please ensure VoiceOver permissions are configured as per README'')) w
            else w)))))))"

definition start_step :: "server \<Rightarrow> world \<Rightarrow> flow \<times> world" where
  "start_step srv w =
     (case start_try srv (emit (Print (CHR 0x0A # ''2. Starting VoiceOver...'')) w) of
        (Inr f, w') \<Rightarrow> (f, w')
      | (Inl e, w') \<Rightarrow>
          (Returned, emit (Print (line cross_mark '' Request failed: '' @ exn_str e)) w'))"

subsection \<open>Step 3: open the application\<close>

text \<open>The body of the inner \<^verbatim>\<open>try\<close>; its value is whether the loop breaks.\<close>

definition open_app_try :: "server \<Rightarrow> string \<Rightarrow> world \<Rightarrow> (pyexn + bool) \<times> world" where
  "open_app_try srv app_name w =
     then_do (requests_post srv (script_base_url @ ''/system/open-app'')
                (Some (PDict [(''appName'', PStr app_name)])) w) (\<lambda>rsp w.
     then_do (response_json rsp, w) (\<lambda>result w.
     then_do (py_get result ''success'' PNone, w) (\<lambda>ok w.
       if truthy ok then
         (Inr True, emit (Print (line check_mark '' Successfully opened '' @ app_name)) w)
       else
         then_do (py_get result ''error'' PNone, w) (\<lambda>err w.
           (Inr False,
            emit (Print (line warning_sign ''  Trying to open '' @ app_name @ '': ''
                    @ py_str err)) w)))))"

text \<open>The \<^verbatim>\<open>for\<close> loop over the application names; its value is \<^verbatim>\<open>copilot_opened\<close>.\<close>

fun open_apps :: "server \<Rightarrow> string list \<Rightarrow> world \<Rightarrow> bool \<times> world" where
  "open_apps srv [] w = (False, w)"
| "open_apps srv (app_name # names) w =
     (case open_app_try srv app_name w of
        (Inr True, w') \<Rightarrow> (True, w')
      | (Inr False, w') \<Rightarrow> open_apps srv names w'
      | (Inl e, w') \<Rightarrow>
          open_apps srv names
            (emit (Print (line cross_mark '' Failed to try '' @ app_name @ '': '' @ exn_str e)) w'))"

text \<open>
  Nothing in the outer \<^verbatim>\<open>try\<close> of this step raises outside the inner one, so its
  handler has no branch here.
\<close>

definition copilot_names :: "string list" where
  "copilot_names = [''Copilot'']"

definition open_copilot_step :: "server \<Rightarrow> world \<Rightarrow> world" where
  "open_copilot_step srv w =
     (case open_apps srv copilot_names (emit (Print (CHR 0x0A # ''3. Opening Copilot...'')) w) of
        (copilot_opened, w') \<Rightarrow>
          emit (Sleep 3000)
            (emit (Print (line alarm_clock '' Waiting for application to start...''))
               (if \<not> copilot_opened
                then emit (Print (line warning_sign
                  (''  Copilot application not found, you may need to install ''
                   @ ''GitHub Copilot first''))) w'
                else w')))"

subsection \<open>Step 4: the navigation scenario\<close>

definition max_attempts :: nat where
  "max_attempts = 5"

text \<open>
  How one pass through a loop body ends: \<open>Advance\<close> is the end of the branch that moves
  to the next element (the loop then counts the attempt), \<open>Stop found\<close> is a \<^verbatim>\<open>break\<close>
  with the flag as it stands.
\<close>

datatype pass = Advance | Stop bool

definition current_url :: string where
  "current_url = script_base_url @ ''/voiceover/current''"

definition click_url :: string where
  "click_url = script_base_url @ ''/voiceover/click''"

definition next_url :: string where
  "next_url = script_base_url @ ''/voiceover/next''"

text \<open>Step 4.1: the body of the first \<^verbatim>\<open>while\<close> loop.\<close>

definition open_icon_pass :: "server \<Rightarrow> world \<Rightarrow> (pyexn + pass) \<times> world" where
  "open_icon_pass srv w =
     then_do (requests_get srv current_url w) (\<lambda>current_response w.
     then_do (response_json current_response, w) (\<lambda>current_result w.
     then_do (py_get current_result ''success'' PNone, w) (\<lambda>ok w.
       if truthy ok then
         then_do (py_get current_result ''currentItem'' (PStr []), w) (\<lambda>item w.
         then_do (py_lower item, w) (\<lambda>current_text w.
         then_do (py_get current_result ''currentItem'' (PStr ''Unknown''), w) (\<lambda>shown w.
         then_do (Inr (), emit (Print (line replacement_char '' Current focus: ''
                                  @ py_str shown)) w) (\<lambda>_ w.
           if contains ''show more'' current_text then
             then_do (Inr (), emit (Print (line check_mark '' Found Open(+) icon control!'')) w)
               (\<lambda>_ w.
             then_do (requests_post srv click_url None w) (\<lambda>click_response w.
             then_do (response_json click_response, w) (\<lambda>click_result w.
             then_do (py_get click_result ''success'' PNone, w) (\<lambda>clicked w.
               if truthy clicked then
                 (Inr (Stop True),
                  emit (Sleep 2000)
                    (emit (Print (line check_mark '' Open(+) icon activated successfully'')) w))
               else
                 then_do (py_get click_result ''error'' PNone, w) (\<lambda>err w.
                   (Inr (Stop True),
                    emit (Print (line cross_mark '' Failed to activate Open(+) icon: ''
                            @ py_str err)) w))))))
           else
             then_do (requests_post srv next_url None w) (\<lambda>next_response w.
               (Inr Advance, emit (Sleep 500) w))))))
       else
         then_do (py_get current_result ''error'' PNone, w) (\<lambda>err w.
           (Inr (Stop False),
            emit (Print (line cross_mark '' Unable to get current element: ''
                    @ py_str err)) w)))))"

text \<open>
  The first \<^verbatim>\<open>while\<close> loop, from the values of \<^verbatim>\<open>open_icon_found\<close> and
  \<^verbatim>\<open>navigation_attempts\<close> at its head to their values at its end.
\<close>

function open_icon_loop :: "server \<Rightarrow> bool \<Rightarrow> nat \<Rightarrow> world \<Rightarrow> (pyexn + bool \<times> nat) \<times> world" where
  "open_icon_loop srv found attempts w =
     (if \<not> found \<and> attempts < max_attempts then
        (case open_icon_pass srv w of
           (Inl e, w') \<Rightarrow> (Inl e, w')
         | (Inr (Stop found'), w') \<Rightarrow> (Inr (found', attempts), w')
         | (Inr Advance, w') \<Rightarrow> open_icon_loop srv found (attempts + 1) w')
      else (Inr (found, attempts), w))"
  by pat_completeness auto
termination
  by (relation "measure (\<lambda>(srv, found, attempts, w). max_attempts - attempts)") auto

text \<open>Step 4.2: the body of the second \<^verbatim>\<open>while\<close> loop.\<close>

definition upload_pass :: "server \<Rightarrow> world \<Rightarrow> (pyexn + pass) \<times> world" where
  "upload_pass srv w =
     then_do (requests_get srv current_url w) (\<lambda>current_response w.
     then_do (response_json current_response, w) (\<lambda>current_result w.
     then_do (py_get current_result ''success'' PNone, w) (\<lambda>ok w.
       if truthy ok then
         then_do (py_get current_result ''currentItem'' (PStr []), w) (\<lambda>item w.
         then_do (py_lower item, w) (\<lambda>current_text w.
         then_do (py_get current_result ''currentItem'' (PStr ''Unknown''), w) (\<lambda>shown w.
         then_do (Inr (), emit (Print (line pushpin '' Current focus: '' @ py_str shown)) w)
           (\<lambda>_ w.
           if contains ''upload'' current_text \<and> contains ''file'' current_text then
             then_do (Inr (),
                 emit (Print (line keyboard ''  Attempting keyboard activation...''))
                   (emit (Print (line check_mark '' Found Upload file control!'')) w)) (\<lambda>_ w.
             then_do (requests_post srv click_url None w) (\<lambda>click_response w.
             then_do (response_json click_response, w) (\<lambda>click_result w.
             then_do (py_get click_result ''success'' PNone, w) (\<lambda>clicked w.
               (Inr (Stop True),
                emit (Sleep 2000)
                  (if \<not> truthy clicked then
                     emit (Print (line check_mark '' Upload file control activated via mouse''))
                       (emit (Sleep 1000)
                          (emit (Print (line mouse
                             ''  Simulating mouse click on Upload file control...''))
                             (emit (Print (line mouse ''  Using mouse activation as fallback...''))
                                (emit (Print (line warning_sign
                                   (''  Keyboard activation failed - ''
                                    @ ''control not accessible with keyboard''))) w))))
                   else
                     emit (Print (line check_mark
                       '' Upload file control activated via keyboard'')) w))))))
           else
             then_do (requests_post srv next_url None w) (\<lambda>next_response w.
               (Inr Advance, emit (Sleep 500) w))))))
       else
         then_do (py_get current_result ''error'' PNone, w) (\<lambda>err w.
           (Inr (Stop False),
            emit (Print (line cross_mark '' Unable to get current element: ''
                    @ py_str err)) w)))))"

function upload_loop :: "server \<Rightarrow> bool \<Rightarrow> nat \<Rightarrow> world \<Rightarrow> (pyexn + bool \<times> nat) \<times> world" where
  "upload_loop srv found attempts w =
     (if \<not> found \<and> attempts < max_attempts then
        (case upload_pass srv w of
           (Inl e, w') \<Rightarrow> (Inl e, w')
         | (Inr (Stop found'), w') \<Rightarrow> (Inr (found', attempts), w')
         | (Inr Advance, w') \<Rightarrow> upload_loop srv found (attempts + 1) w')
      else (Inr (found, attempts), w))"
  by pat_completeness auto
termination
  by (relation "measure (\<lambda>(srv, found, attempts, w). max_attempts - attempts)") auto

text \<open>Step 4.3: the decorative-image check.\<close>

definition max_focus_checks :: nat where
  "max_focus_checks = 5"

definition decorative_keywords :: "string list" where
  "decorative_keywords = ['', image'']"

text \<open>The \<^verbatim>\<open>for\<close> loop over the keywords; its value is \<^verbatim>\<open>decorative_image_detected\<close>.\<close>

fun check_keywords :: "string list \<Rightarrow> string \<Rightarrow> string \<Rightarrow> world \<Rightarrow> bool \<times> world" where
  "check_keywords [] current_text current_text_lower w = (False, w)"
| "check_keywords (keyword # keywords) current_text current_text_lower w =
     (if contains keyword current_text_lower then
        (True,
         emit (Print (line loudspeaker '' Image content being announced: ''
                 @ [CHR 0x27] @ current_text @ [CHR 0x27]))
           (emit (Print (line warning_sign
              ''  ISSUE DETECTED: Screen reader focus moved to decorative image!'')) w))
      else check_keywords keywords current_text current_text_lower w)"

definition focus_pass :: "server \<Rightarrow> world \<Rightarrow> (pyexn + pass) \<times> world" where
  "focus_pass srv w =
     then_do (requests_get srv current_url w) (\<lambda>current_response w.
     then_do (response_json current_response, w) (\<lambda>current_result w.
     then_do (py_get current_result ''success'' PNone, w) (\<lambda>ok w.
       if truthy ok then
         then_do (py_get current_result ''currentItem'' (PStr []), w) (\<lambda>current_text w.
         then_do (py_lower current_text, w) (\<lambda>current_text_lower w.
         then_do (Inr (), emit (Print (line pushpin '' Checking focus: '' @ py_str current_text)) w)
           (\<lambda>_ w.
           case check_keywords decorative_keywords (py_str current_text) current_text_lower w of
             (True, w') \<Rightarrow> (Inr (Stop True), w')
           | (False, w') \<Rightarrow>
               then_do (requests_post srv next_url None w') (\<lambda>next_response w.
                 (Inr Advance, emit (Sleep 500) w)))))
       else (Inr (Stop False), w))))"

function focus_loop :: "server \<Rightarrow> bool \<Rightarrow> nat \<Rightarrow> world \<Rightarrow> (pyexn + bool \<times> nat) \<times> world" where
  "focus_loop srv detected attempts w =
     (if attempts < max_focus_checks then
        (case focus_pass srv w of
           (Inl e, w') \<Rightarrow> (Inl e, w')
         | (Inr (Stop detected'), w') \<Rightarrow> (Inr (detected', attempts), w')
         | (Inr Advance, w') \<Rightarrow> focus_loop srv detected (attempts + 1) w')
      else (Inr (detected, attempts), w))"
  by pat_completeness auto
termination
  by (relation "measure (\<lambda>(srv, detected, attempts, w). max_focus_checks - attempts)") auto

text \<open>The body of the \<^verbatim>\<open>try\<close> block of step 4, and the step under its handler.\<close>

definition navigation_try :: "server \<Rightarrow> world \<Rightarrow> (pyexn + unit) \<times> world" where
  "navigation_try srv w =
     then_do (open_icon_loop srv False 0
                (emit (Print (line magnifier '' Step 4.1: Navigating to Open(+) icon control...'')) w))
       (\<lambda>(open_icon_found, navigation_attempts) w.
     then_do (upload_loop srv False 0
                (emit (Print (line magnifier '' Step 4.2: Navigating to Upload file control...''))
                   (if \<not> open_icon_found
                    then emit (Print (line warning_sign
                           ''  Open(+) icon not found after maximum attempts'')) w
                    else w)))
       (\<lambda>(upload_control_found, navigation_attempts) w.
     then_do (focus_loop srv False 0
                (emit (Print (line magnifier
                   '' Step 4.3: Checking for decorative image focus issues...''))
                   (if \<not> upload_control_found
                    then emit (Print (line warning_sign
                           ''  Upload file control not found after maximum attempts'')) w
                    else w)))
       (\<lambda>(decorative_image_detected, focus_check_attempts) w.
         (Inr (),
          emit (Print (line bar_chart '' Navigation scenario completed''))
            (if \<not> decorative_image_detected
             then emit (Print (line check_mark '' No decorative image focus issues detected''))
                    (emit (Print (replicate 30 (CHR ''='') @ '' Verification Result ''
                            @ replicate 30 (CHR ''=''))) w)
             else w)))))"

definition navigation_step :: "server \<Rightarrow> world \<Rightarrow> world" where
  "navigation_step srv w =
     (case navigation_try srv
             (emit (Print (CHR 0x0A # ''4. Testing accessibility navigation scenario...'')) w) of
        (Inr u, w') \<Rightarrow> w'
      | (Inl e, w') \<Rightarrow>
          emit (Print (line cross_mark '' Error during accessibility testing: '' @ exn_str e)) w')"

subsection \<open>Step 5: stop the screen reader\<close>

definition stop_try :: "server \<Rightarrow> world \<Rightarrow> (pyexn + unit) \<times> world" where
  "stop_try srv w =
     then_do (requests_post srv (script_base_url @ ''/voiceover/stop'') None w) (\<lambda>rsp w.
     then_do (response_json rsp, w) (\<lambda>result w.
     then_do (py_get result ''success'' PNone, w) (\<lambda>ok w.
       if truthy ok then (Inr (), emit (Print (line check_mark '' VoiceOver stopped'')) w)
       else
         then_do (py_get result ''error'' PNone, w) (\<lambda>err w.
           (Inr (), emit (Print (line cross_mark '' Stop failed: '' @ py_str err)) w)))))"

definition stop_step :: "server \<Rightarrow> world \<Rightarrow> world" where
  "stop_step srv w =
     (case stop_try srv (emit (Print (CHR 0x0A # ''5. Stopping VoiceOver...'')) w) of
        (Inr u, w') \<Rightarrow> w'
      | (Inl e, w') \<Rightarrow> emit (Print (line cross_mark '' Request failed: '' @ exn_str e)) w')"

subsection \<open>The whole script\<close>

definition start_world :: world where
  "start_world = \<lparr>sent = 0, trace = []\<rparr>"

definition test_voiceover_operations :: "server \<Rightarrow> world" where
  "test_voiceover_operations srv =
     (case health_step srv
             (emit (Print (replicate 60 (CHR ''='')))
                (emit (Print (direct_hit
                   @ '' Starting Python -> TypeScript -> VoiceOver integration test''))
                   start_world)) of
        (Returned, w) \<Rightarrow> w
      | (Proceed, w) \<Rightarrow>
          (case start_step srv w of
             (Returned, w) \<Rightarrow> w
           | (Proceed, w) \<Rightarrow>
               emit (Print (CHR 0x0A # party_popper @ '' Accessibility test completed!''))
                 (stop_step srv (navigation_step srv (open_copilot_step srv w)))))"

section \<open>Vocabulary of the properties\<close>

text \<open>The requests sent to one URL so far, and the events a step added to the trace.\<close>

fun is_request_to :: "string \<Rightarrow> event \<Rightarrow> bool" where
  "is_request_to url (Request m u p) = (u = url)"
| "is_request_to url (Print s) = False"
| "is_request_to url (Sleep n) = False"

definition requests_to :: "string \<Rightarrow> world \<Rightarrow> nat" where
  "requests_to url w = length (filter (is_request_to url) (trace w))"

definition new_events :: "world \<Rightarrow> world \<Rightarrow> event list" where
  "new_events w w' = drop (length (trace w)) (trace w')"

text \<open>
  What a poll of the current item yields: the lower-cased text of the item when the body is
  an object with a true \<^verbatim>\<open>success\<close> and a string item (the empty string when the key is
  absent); and whether the body is an object whose \<^verbatim>\<open>success\<close> is false or absent.
\<close>

definition polled_text :: "http_result \<Rightarrow> string option" where
  "polled_text out =
     (case out of
        Raises e \<Rightarrow> None
      | Responds rsp \<Rightarrow>
          (case json rsp of
             Inr (PDict d) \<Rightarrow>
               (if truthy (dict_get d ''success'' PNone)
                then (case dict_get d ''currentItem'' (PStr []) of
                        PStr s \<Rightarrow> Some (str_lower s)
                      | _ \<Rightarrow> None)
                else None)
           | _ \<Rightarrow> None))"

definition poll_refused :: "http_result \<Rightarrow> bool" where
  "poll_refused out =
     (case out of
        Raises e \<Rightarrow> False
      | Responds rsp \<Rightarrow>
          (case json rsp of
             Inr (PDict d) \<Rightarrow> \<not> truthy (dict_get d ''success'' PNone)
           | _ \<Rightarrow> False))"

subsection \<open>Servers for the examples\<close>

definition ok_response :: "pyval \<Rightarrow> http_result" where
  "ok_response body = Responds \<lparr>status_code = 200, json = Inr body\<rparr>"

definition item_body :: "string \<Rightarrow> pyval" where
  "item_body X = PDict [(''success'', PBool True), (''currentItem'', PStr X)]"

text \<open>Nobody listens on the port.\<close>

definition refused_connection :: server where
  "refused_connection n = Raises (ConnectionError ''Connection refused'')"


definition timing_out :: server where
  "timing_out n = Raises (OtherException ''Read timed out.'')"

text \<open>Every answer is the health report, which has none of the keys of a result.\<close>

definition health_only :: server where
  "health_only n = ok_response (PDict [(''voiceOverRunning'', PBool True)])"

text \<open>The focus stays on one item.\<close>

definition focused_on :: "string \<Rightarrow> server" where
  "focused_on X n = ok_response (item_body X)"

text \<open>Every request is answered with a failure that carries no error text.\<close>

definition refusing_server :: server where
  "refusing_server n = ok_response (PDict [(''success'', PBool False)])"

text \<open>One item without the keyword, then the poll fails.\<close>

definition losing_focus :: server where
  "losing_focus n =
     (if n < 2 then ok_response (item_body ''Home'')
      else ok_response (PDict [(''success'', PBool False), (''error'', PStr ''gone'')]))"

text \<open>The server is up, the screen reader is off and cannot be started.\<close>

definition unsupported_server :: server where
  "unsupported_server n =
     (if n = 0 then ok_response (PDict [(''voiceOverRunning'', PBool False)])
      else ok_response (PDict [(''success'', PBool False),
                               (''error'', PStr ''VoiceOver not supported'')]))"

section \<open>Properties\<close>

subsection \<open>Auxiliary facts\<close>

lemmas io_defs = then_do_def requests_get_def requests_post_def http_call_def emit_def
  response_json_def py_get_def py_lower_def

lemma upper_GET: "str_upper ''GET'' = ''GET''"
  by code_simp

lemma upper_POST: "str_upper ''POST'' = ''POST''"
  by code_simp

lemma urls_distinct [simp]:
  "current_url \<noteq> next_url" "click_url \<noteq> next_url" "current_url \<noteq> click_url"
  "next_url \<noteq> current_url" "next_url \<noteq> click_url" "click_url \<noteq> current_url"
  by (simp_all add: current_url_def next_url_def click_url_def)

lemma dict_get_absent: "k \<notin> fst ` set d \<Longrightarrow> dict_get d k dflt = dflt"
  by (simp add: dict_get_def map_of_eq_None_iff [THEN iffD2])

text \<open>What the \<^verbatim>\<open>try\<close> block of the wrapper yields for a supported method.\<close>

lemma make_request_try_supported:
  assumes "str_upper method = ''GET'' \<or> str_upper method = ''POST''"
  shows "fst (make_request_try srv self method endpoint data w) =
     (case srv (sent w) of
        Raises e \<Rightarrow> Inl e
      | Responds rsp \<Rightarrow>
          (case json rsp of
             Inl m \<Rightarrow> Inl (OtherException m)
           | Inr (PDict d) \<Rightarrow>
               Inr \<lparr>success = dict_get d ''success'' (PBool False),
                    message = dict_get d ''message'' PNone,
                    currentItem = dict_get d ''currentItem'' PNone,
                    responses = dict_get d ''responses'' PNone,
                    error = dict_get d ''error'' PNone\<rparr>
           | Inr v \<Rightarrow> Inl (no_attribute v ''get'')))"
  using assms
  by (auto simp: make_request_try_def requests_get_def requests_post_def http_call_def
      response_json_def split: http_result.splits sum.splits pyval.splits)

lemma make_request_handlers:
  "fst (make_request srv self method endpoint data w) =
     (case fst (make_request_try srv self method endpoint data w) of
        Inr r \<Rightarrow> Inr r
      | Inl (ConnectionError m) \<Rightarrow> Inr (failure connect_error_message)
      | Inl (OtherException m) \<Rightarrow> Inr (failure m))"
  by (simp add: make_request_def split: prod.splits sum.splits pyexn.splits)

text \<open>The substring test finds exactly the contiguous occurrences.\<close>

lemma starts_with_iff: "starts_with s p \<longleftrightarrow> (\<exists>post. s = p @ post)"
  by (induction s p rule: starts_with.induct) auto

lemma contains_iff: "contains p s \<longleftrightarrow> (\<exists>pre post. s = pre @ p @ post)"
proof (induction s)
  case Nil
  then show ?case by auto
next
  case (Cons c s)
  show ?case
  proof
    assume "contains p (c # s)"
    then consider "starts_with (c # s) p" | "contains p s" by auto
    then show "\<exists>pre post. c # s = pre @ p @ post"
    proof cases
      case 1
      then obtain post where "c # s = p @ post" by (auto simp: starts_with_iff)
      then have "c # s = [] @ p @ post" by simp
      then show ?thesis by blast
    next
      case 2
      with Cons.IH obtain pre post where "s = pre @ p @ post" by auto
      then have "c # s = (c # pre) @ p @ post" by simp
      then show ?thesis by blast
    qed
  next
    assume "\<exists>pre post. c # s = pre @ p @ post"
    then obtain pre post where eq: "c # s = pre @ p @ post" by auto
    show "contains p (c # s)"
    proof (cases pre)
      case Nil
      with eq have "starts_with (c # s) p" by (auto simp: starts_with_iff)
      then show ?thesis by simp
    next
      case (Cons a pre')
      with eq have "s = pre' @ p @ post" by simp
      with Cons.IH have "contains p s" by blast
      then show ?thesis by simp
    qed
  qed
qed

text \<open>One pass of either navigation loop polls once and advances at most once.\<close>

lemma open_icon_pass_requests:
  "open_icon_pass srv w = (r, w') \<Longrightarrow>
     requests_to next_url w' \<le> requests_to next_url w + 1
   \<and> requests_to current_url w' = requests_to current_url w + 1"
  by (auto simp: open_icon_pass_def io_defs requests_to_def
      split: http_result.splits sum.splits pyval.splits if_splits)

lemma upload_pass_requests:
  "upload_pass srv w = (r, w') \<Longrightarrow>
     requests_to next_url w' \<le> requests_to next_url w + 1
   \<and> requests_to current_url w' = requests_to current_url w + 1"
  by (auto simp: upload_pass_def io_defs requests_to_def
      split: http_result.splits sum.splits pyval.splits if_splits)

lemma open_icon_loop_bound:
  "open_icon_loop srv found attempts w = (r, w') \<Longrightarrow> attempts \<le> max_attempts \<Longrightarrow>
     requests_to next_url w' + attempts \<le> requests_to next_url w + max_attempts
   \<and> requests_to current_url w' + attempts \<le> requests_to current_url w + max_attempts
   \<and> (\<forall>f a. r = Inr (f, a) \<longrightarrow> attempts \<le> a \<and> a \<le> max_attempts)"
proof (induction srv found attempts w arbitrary: r w' rule: open_icon_loop.induct)
  case (1 srv found attempts w)
  show ?case
  proof (cases "\<not> found \<and> attempts < max_attempts")
    case False
    with "1.prems" show ?thesis by auto
  next
    case True
    obtain p w1 where pass: "open_icon_pass srv w = (p, w1)" by (cases "open_icon_pass srv w")
    note step = open_icon_pass_requests [OF pass]
    show ?thesis
    proof (cases p)
      case (Inl e)
      with True pass "1.prems" step show ?thesis by auto
    next
      case (Inr c)
      show ?thesis
      proof (cases c)
        case (Stop f)
        with True pass Inr "1.prems" step show ?thesis by auto
      next
        case Advance
        with True pass Inr "1.prems"
        have rec: "open_icon_loop srv found (attempts + 1) w1 = (r, w')"
          by simp
        from True have le: "attempts + 1 \<le> max_attempts" by simp
        from "1.IH" [OF True pass [symmetric] Inr Advance rec le] step
        show ?thesis by auto
      qed
    qed
  qed
qed

lemma upload_loop_bound:
  "upload_loop srv found attempts w = (r, w') \<Longrightarrow> attempts \<le> max_attempts \<Longrightarrow>
     requests_to next_url w' + attempts \<le> requests_to next_url w + max_attempts
   \<and> requests_to current_url w' + attempts \<le> requests_to current_url w + max_attempts
   \<and> (\<forall>f a. r = Inr (f, a) \<longrightarrow> attempts \<le> a \<and> a \<le> max_attempts)"
proof (induction srv found attempts w arbitrary: r w' rule: upload_loop.induct)
  case (1 srv found attempts w)
  show ?case
  proof (cases "\<not> found \<and> attempts < max_attempts")
    case False
    with "1.prems" show ?thesis by auto
  next
    case True
    obtain p w1 where pass: "upload_pass srv w = (p, w1)" by (cases "upload_pass srv w")
    note step = upload_pass_requests [OF pass]
    show ?thesis
    proof (cases p)
      case (Inl e)
      with True pass "1.prems" step show ?thesis by auto
    next
      case (Inr c)
      show ?thesis
      proof (cases c)
        case (Stop f)
        with True pass Inr "1.prems" step show ?thesis by auto
      next
        case Advance
        with True pass Inr "1.prems"
        have rec: "upload_loop srv found (attempts + 1) w1 = (r, w')"
          by simp
        from True have le: "attempts + 1 \<le> max_attempts" by simp
        from "1.IH" [OF True pass [symmetric] Inr Advance rec le] step
        show ?thesis by auto
      qed
    qed
  qed
qed

text \<open>How one pass of the first loop can end, read off the poll that started it.\<close>

lemma open_icon_pass_found:
  "open_icon_pass srv w = (Inr (Stop True), w') \<Longrightarrow>
     \<exists>t. polled_text (srv (sent w)) = Some t \<and> contains ''show more'' t"
  by (auto simp: open_icon_pass_def io_defs polled_text_def
      split: http_result.splits sum.splits pyval.splits if_splits)

lemma open_icon_pass_refused:
  "open_icon_pass srv w = (Inr (Stop False), w') \<Longrightarrow> poll_refused (srv (sent w))"
  by (auto simp: open_icon_pass_def io_defs poll_refused_def
      split: http_result.splits sum.splits pyval.splits if_splits)

lemma open_icon_pass_advance:
  assumes "polled_text (srv (sent w)) = Some t" and "\<not> contains ''show more'' t"
    and "srv (sent w + 1) = Responds rsp"
  shows "\<exists>focus. open_icon_pass srv w =
     (Inr Advance,
      \<lparr>sent = sent w + 2,
       trace = trace w @ [Request ''GET'' current_url None, Print focus,
                          Request ''POST'' next_url None, Sleep 500]\<rparr>)"
  using assms
  by (auto simp: open_icon_pass_def io_defs polled_text_def
      split: http_result.splits sum.splits pyval.splits if_splits)

lemma open_icon_loop_exits:
  "open_icon_loop srv False attempts w = (r, w') \<Longrightarrow> attempts \<le> max_attempts \<Longrightarrow>
     (\<exists>e. r = Inl e)
   \<or> r = Inr (False, max_attempts)
   \<or> (\<exists>a w1. a < max_attempts \<and> r = Inr (True, a)
         \<and> open_icon_pass srv w1 = (Inr (Stop True), w'))
   \<or> (\<exists>a w1. a < max_attempts \<and> r = Inr (False, a)
         \<and> open_icon_pass srv w1 = (Inr (Stop False), w'))"
proof (induction srv "False" attempts w arbitrary: r w' rule: open_icon_loop.induct)
  case (1 srv attempts w)
  show ?case
  proof (cases "attempts < max_attempts")
    case False
    with "1.prems" show ?thesis by auto
  next
    case True
    then have cond: "\<not> False \<and> attempts < max_attempts" by simp
    obtain p w1 where pass: "open_icon_pass srv w = (p, w1)" by (cases "open_icon_pass srv w")
    show ?thesis
    proof (cases p)
      case (Inl e)
      with True pass "1.prems" show ?thesis by auto
    next
      case (Inr c)
      show ?thesis
      proof (cases c)
        case (Stop f)
        with True pass Inr "1.prems" have r: "r = Inr (f, attempts)" and w': "w1 = w'"
          by auto
        show ?thesis
        proof (cases f)
          case True
          with pass Inr Stop r w' \<open>attempts < max_attempts\<close> show ?thesis by auto
        next
          case False
          with pass Inr Stop r w' \<open>attempts < max_attempts\<close> show ?thesis by auto
        qed
      next
        case Advance
        with True pass Inr "1.prems"
        have rec: "open_icon_loop srv False (attempts + 1) w1 = (r, w')"
          by simp
        from True have le: "attempts + 1 \<le> max_attempts" by simp
        from "1.hyps" [OF cond pass [symmetric] Inr Advance rec le]
        show ?thesis .
      qed
    qed
  qed
qed

subsection \<open>The request wrapper\<close>




text \<open>
  C4. When the server answers the poll of the current item with the body
  \<^verbatim>\<open>{"success": true, "currentItem": X}\<close>, \<^verbatim>\<open>get_current_item\<close> returns a result with
  \<^verbatim>\<open>success\<close> true and \<^verbatim>\<open>currentItem\<close> equal to \<open>X\<close>, every other field \<^verbatim>\<open>None\<close>, after
  one GET request to \<^verbatim>\<open>/voiceover/current\<close>.
\<close>

theorem current_item_returned_unchanged:
  assumes "srv (sent w) = Responds rsp"
    and "json rsp = Inr (PDict [(''success'', PBool True), (''currentItem'', PStr X)])"
  shows "get_current_item srv self w =
     (Inr \<lparr>success = PBool True, message = PNone, currentItem = PStr X, responses = PNone,
           error = PNone\<rparr>,
      \<lparr>sent = sent w + 1,
       trace = trace w @ [Request ''GET'' (base_url self @ ''/voiceover/current'') None]\<rparr>)"
  using assms
  by (simp add: get_current_item_def make_request_def make_request_try_def requests_get_def
      http_call_def response_json_def dict_get_def upper_GET)

theorem current_item_returned_unchanged_witness:
  "get_current_item (focused_on ''Show more, button'') default_client start_world =
     (Inr \<lparr>success = PBool True, message = PNone, currentItem = PStr ''Show more, button'',
           responses = PNone, error = PNone\<rparr>,
      \<lparr>sent = 1, trace = [Request ''GET'' ''http://localhost:3000/voiceover/current'' None]\<rparr>)"
proof -
  have answer: "focused_on ''Show more, button'' (sent start_world)
      = Responds \<lparr>status_code = 200, json = Inr (item_body ''Show more, button'')\<rparr>"
    by (simp add: focused_on_def ok_response_def)
  have body: "json \<lparr>status_code = 200, json = Inr (item_body ''Show more, button'')\<rparr>
      = Inr (PDict [(''success'', PBool True), (''currentItem'', PStr ''Show more, button'')])"
    by (simp add: item_body_def)
  from current_item_returned_unchanged [where srv = "focused_on ''Show more, button''"
      and w = start_world and self = default_client, OF answer body]
  show ?thesis by (simp add: start_world_def default_client_def)
qed

text \<open>
  C7. For a request with a supported method: when the transport raises a connection
  error, the result is the failure with the fixed sentence, whatever the method, the
  endpoint, the payload and the text of the connection error; when it raises any other
  exception, when the body is not JSON, or when the decoded body is not an object, the
  result is the failure whose error is the message of that exception.
\<close>

theorem connection_error_fixed_other_stringified:
  assumes "str_upper method = ''GET'' \<or> str_upper method = ''POST''"
  shows "(srv (sent w) = Raises (ConnectionError m) \<longrightarrow>
            fst (make_request srv self method endpoint data w)
              = Inr (failure connect_error_message))
     \<and> (srv (sent w) = Raises (OtherException m) \<longrightarrow>
            fst (make_request srv self method endpoint data w) = Inr (failure m))
     \<and> (srv (sent w) = Responds rsp \<and> json rsp = Inl m \<longrightarrow>
            fst (make_request srv self method endpoint data w) = Inr (failure m))
     \<and> (srv (sent w) = Responds rsp \<and> json rsp = Inr v \<and> (\<forall>d. v \<noteq> PDict d) \<longrightarrow>
            fst (make_request srv self method endpoint data w)
              = Inr (failure (exn_str (no_attribute v ''get''))))"
  using assms
  by (cases v) (simp_all add: make_request_handlers make_request_try_supported no_attribute_def)

theorem connection_error_fixed_other_stringified_witness:
  "fst (make_request refused_connection default_client ''POST'' ''/system/press-key''
          (PDict [(''key'', PStr ''Enter'')]) start_world)
     = Inr \<lparr>success = PBool False, message = PNone, currentItem = PNone, responses = PNone,
            error = PStr (''Could not connect to VoiceOver server. Make sure it''
                          @ [CHR 0x27] @ ''s running.'')\<rparr>
   \<and> fst (make_request timing_out default_client ''GET'' ''/health'' PNone start_world)
     = Inr \<lparr>success = PBool False, message = PNone, currentItem = PNone, responses = PNone,
            error = PStr ''Read timed out.''\<rparr>"
proof -
  have post: "str_upper ''POST'' = ''GET'' \<or> str_upper ''POST'' = ''POST''"
    by (simp add: upper_POST)
  have get: "str_upper ''GET'' = ''GET'' \<or> str_upper ''GET'' = ''POST''"
    by (simp add: upper_GET)
  have refused: "refused_connection (sent start_world)
      = Raises (ConnectionError ''Connection refused'')"
    by (simp add: refused_connection_def)
  have timeout: "timing_out (sent start_world) = Raises (OtherException ''Read timed out.'')"
    by (simp add: timing_out_def)
  from connection_error_fixed_other_stringified [where srv = refused_connection
      and w = start_world and m = "''Connection refused''", OF post] refused
  have a: "fst (make_request refused_connection default_client ''POST'' ''/system/press-key''
      (PDict [(''key'', PStr ''Enter'')]) start_world) = Inr (failure connect_error_message)"
    by blast
  from connection_error_fixed_other_stringified [where srv = timing_out
      and w = start_world and m = "''Read timed out.''", OF get] timeout
  have b: "fst (make_request timing_out default_client ''GET'' ''/health'' PNone start_world)
      = Inr (failure ''Read timed out.'')"
    by blast
  from a b show ?thesis by (simp add: failure_def connect_error_message_def)
qed

text \<open>
  C8. When the server answers a request with a JSON object, the wrapper returns a result
  in which \<^verbatim>\<open>success\<close> is \<^verbatim>\<open>False\<close> if the object has no \<^verbatim>\<open>success\<close> key, and each of
  \<^verbatim>\<open>message\<close>, \<^verbatim>\<open>currentItem\<close>, \<^verbatim>\<open>responses\<close> and \<^verbatim>\<open>error\<close> is \<^verbatim>\<open>None\<close> if its key is absent.
\<close>

theorem absent_keys_take_defaults:
  assumes "str_upper method = ''GET'' \<or> str_upper method = ''POST''"
    and "srv (sent w) = Responds rsp" and "json rsp = Inr (PDict d)"
  shows "\<exists>r. fst (make_request srv self method endpoint data w) = Inr r
    \<and> (''success'' \<notin> fst ` set d \<longrightarrow> success r = PBool False)
    \<and> (''message'' \<notin> fst ` set d \<longrightarrow> message r = PNone)
    \<and> (''currentItem'' \<notin> fst ` set d \<longrightarrow> currentItem r = PNone)
    \<and> (''responses'' \<notin> fst ` set d \<longrightarrow> responses r = PNone)
    \<and> (''error'' \<notin> fst ` set d \<longrightarrow> error r = PNone)"
  using assms
  by (simp add: make_request_handlers make_request_try_supported dict_get_absent)

theorem absent_keys_take_defaults_witness:
  "fst (make_request health_only default_client ''GET'' ''/health'' PNone start_world)
     = Inr \<lparr>success = PBool False, message = PNone, currentItem = PNone, responses = PNone,
            error = PNone\<rparr>"
proof -
  have get: "str_upper ''GET'' = ''GET'' \<or> str_upper ''GET'' = ''POST''"
    by (simp add: upper_GET)
  have answer: "health_only (sent start_world)
      = Responds \<lparr>status_code = 200, json = Inr (PDict [(''voiceOverRunning'', PBool True)])\<rparr>"
    by (simp add: health_only_def ok_response_def)
  have body: "json \<lparr>status_code = 200, json = Inr (PDict [(''voiceOverRunning'', PBool True)])\<rparr>
      = Inr (PDict [(''voiceOverRunning'', PBool True)])"
    by simp
  from absent_keys_take_defaults [where srv = health_only and w = start_world
      and self = default_client and endpoint = "''/health''" and data = PNone,
      OF get answer body]
  obtain r where
    "fst (make_request health_only default_client ''GET'' ''/health'' PNone start_world) = Inr r"
    and "success r = PBool False" and "message r = PNone" and "currentItem r = PNone"
    and "responses r = PNone" and "error r = PNone"
    by auto
  then show ?thesis by (cases r) simp
qed



subsection \<open>The command dispatcher\<close>



subsection \<open>The scripted scenario\<close>

text \<open>
  C2. Each of the two navigation loops, started as the script starts it (flag false,
  counter 0), returns for every server, and it has then sent at most 5 requests to the
  next endpoint and polled the current item at most 5 times; when it ends without an
  exception, the attempt counter it ends with is at most 5. This holds for every sequence
  of server responses, and so for those in which no polled text has the keyword.
\<close>

theorem navigation_loops_bounded:
  "requests_to next_url (snd (open_icon_loop srv False 0 w)) \<le> requests_to next_url w + 5
   \<and> requests_to current_url (snd (open_icon_loop srv False 0 w))
        \<le> requests_to current_url w + 5
   \<and> (\<forall>found a. fst (open_icon_loop srv False 0 w) = Inr (found, a) \<longrightarrow> a \<le> 5)
   \<and> requests_to next_url (snd (upload_loop srv False 0 w)) \<le> requests_to next_url w + 5
   \<and> requests_to current_url (snd (upload_loop srv False 0 w))
        \<le> requests_to current_url w + 5
   \<and> (\<forall>found a. fst (upload_loop srv False 0 w) = Inr (found, a) \<longrightarrow> a \<le> 5)"
proof -
  obtain r1 w1 where one: "open_icon_loop srv False 0 w = (r1, w1)"
    by (cases "open_icon_loop srv False 0 w")
  obtain r2 w2 where two: "upload_loop srv False 0 w = (r2, w2)"
    by (cases "upload_loop srv False 0 w")
  from open_icon_loop_bound [OF one] upload_loop_bound [OF two] one two
  show ?thesis by (simp add: max_attempts_def)
qed

theorem navigation_loops_bounded_witness:
  "fst (open_icon_loop (focused_on ''Home'') False 0 start_world) = Inr (False, 5)
   \<and> requests_to next_url (snd (open_icon_loop (focused_on ''Home'') False 0 start_world)) \<le> 5
   \<and> requests_to current_url (snd (open_icon_loop (focused_on ''Home'') False 0 start_world))
        \<le> 5
   \<and> fst (upload_loop (focused_on ''Home'') False 0 start_world) = Inr (False, 5)
   \<and> requests_to next_url (snd (upload_loop (focused_on ''Home'') False 0 start_world)) \<le> 5
   \<and> requests_to current_url (snd (upload_loop (focused_on ''Home'') False 0 start_world))
        \<le> 5"
proof -
  have no_match: "\<not> contains ''show more'' (str_lower ''Home'')"
    "\<not> contains ''upload'' (str_lower ''Home'')"
    by code_simp+
  have one: "fst (open_icon_loop (focused_on ''Home'') False 0 start_world) = Inr (False, 5)"
    using no_match
    by (simp add: open_icon_pass_def io_defs focused_on_def ok_response_def item_body_def
        dict_get_def max_attempts_def start_world_def)
  have two: "fst (upload_loop (focused_on ''Home'') False 0 start_world) = Inr (False, 5)"
    using no_match
    by (simp add: upload_pass_def io_defs focused_on_def ok_response_def item_body_def
        dict_get_def max_attempts_def start_world_def)
  have none: "requests_to next_url start_world = 0" "requests_to current_url start_world = 0"
    by (simp_all add: requests_to_def start_world_def)
  from navigation_loops_bounded [of "focused_on ''Home''" start_world] one two none
  show ?thesis by simp
qed

text \<open>
  C3. When a poll succeeds with the current item \<open>X\<close>, the pass of the first loop takes
  its match branch (it prints that the control was found and sends the click) exactly when
  the lower-cased \<open>X\<close> has \<^verbatim>\<open>show more\<close> as a contiguous substring, and the pass of the
  second loop exactly when it has both \<^verbatim>\<open>upload\<close> and \<^verbatim>\<open>file\<close> as contiguous substrings,
  anywhere in the text and in any letter case.
\<close>

theorem keyword_match_is_lowercase_substring:
  assumes "srv (sent w) = Responds rsp" and "json rsp = Inr (PDict d)"
    and "truthy (dict_get d ''success'' PNone)"
    and "dict_get d ''currentItem'' (PStr []) = PStr X"
  shows "(Print (line check_mark '' Found Open(+) icon control!'')
            \<in> set (new_events w (snd (open_icon_pass srv w))))
           = (\<exists>pre post. str_lower X = pre @ ''show more'' @ post)
       \<and> (Request ''POST'' click_url None \<in> set (new_events w (snd (open_icon_pass srv w))))
           = (\<exists>pre post. str_lower X = pre @ ''show more'' @ post)
       \<and> (Print (line check_mark '' Found Upload file control!'')
            \<in> set (new_events w (snd (upload_pass srv w))))
           = ((\<exists>pre post. str_lower X = pre @ ''upload'' @ post)
              \<and> (\<exists>pre post. str_lower X = pre @ ''file'' @ post))
       \<and> (Request ''POST'' click_url None \<in> set (new_events w (snd (upload_pass srv w))))
           = ((\<exists>pre post. str_lower X = pre @ ''upload'' @ post)
              \<and> (\<exists>pre post. str_lower X = pre @ ''file'' @ post))"
proof -
  have a: "(Print (line check_mark '' Found Open(+) icon control!'')
              \<in> set (new_events w (snd (open_icon_pass srv w))))
           = contains ''show more'' (str_lower X)"
    using assms
    by (auto simp: open_icon_pass_def io_defs new_events_def line_def check_mark_def
        replacement_char_def split: http_result.splits sum.splits pyval.splits)
  have b: "(Request ''POST'' click_url None \<in> set (new_events w (snd (open_icon_pass srv w))))
           = contains ''show more'' (str_lower X)"
    using assms
    by (auto simp: open_icon_pass_def io_defs new_events_def
        split: http_result.splits sum.splits pyval.splits)
  have c: "(Print (line check_mark '' Found Upload file control!'')
              \<in> set (new_events w (snd (upload_pass srv w))))
           = (contains ''upload'' (str_lower X) \<and> contains ''file'' (str_lower X))"
    using assms
    by (auto simp: upload_pass_def io_defs new_events_def line_def check_mark_def
        pushpin_def split: http_result.splits sum.splits pyval.splits)
  have d: "(Request ''POST'' click_url None \<in> set (new_events w (snd (upload_pass srv w))))
           = (contains ''upload'' (str_lower X) \<and> contains ''file'' (str_lower X))"
    using assms
    by (auto simp: upload_pass_def io_defs new_events_def
        split: http_result.splits sum.splits pyval.splits)
  show ?thesis unfolding a b c d by (simp only: contains_iff)
qed

theorem keyword_match_is_lowercase_substring_witness:
  "Request ''POST'' click_url None
     \<in> set (new_events start_world
              (snd (open_icon_pass (focused_on ''Tap to SHOW MOREs'') start_world)))
   \<and> Request ''POST'' click_url None
     \<in> set (new_events start_world
              (snd (upload_pass (focused_on ''ReUPLOAD ProFILEs'') start_world)))"
proof -
  have body: "json \<lparr>status_code = 200, json = Inr (item_body X)\<rparr>
       = Inr (PDict [(''success'', PBool True), (''currentItem'', PStr X)])" for X
    by (simp add: item_body_def)
  have ok: "truthy (dict_get [(''success'', PBool True), (''currentItem'', PStr X)]
       ''success'' PNone)" for X
    by (simp add: dict_get_def)
  have item: "dict_get [(''success'', PBool True), (''currentItem'', PStr X)]
       ''currentItem'' (PStr []) = PStr X" for X
    by (simp add: dict_get_def)
  have poll: "focused_on X (sent start_world)
       = Responds \<lparr>status_code = 200, json = Inr (item_body X)\<rparr>" for X
    by (simp add: focused_on_def ok_response_def)
  have "str_lower ''Tap to SHOW MOREs'' = ''tap to '' @ ''show more'' @ ''s''"
    by code_simp
  then have one: "\<exists>pre post. str_lower ''Tap to SHOW MOREs'' = pre @ ''show more'' @ post"
    by blast
  have "str_lower ''ReUPLOAD ProFILEs'' = ''re'' @ ''upload'' @ '' profiles''"
    by code_simp
  then have two: "\<exists>pre post. str_lower ''ReUPLOAD ProFILEs'' = pre @ ''upload'' @ post"
    by blast
  have "str_lower ''ReUPLOAD ProFILEs'' = ''reupload pro'' @ ''file'' @ ''s''"
    by code_simp
  then have three: "\<exists>pre post. str_lower ''ReUPLOAD ProFILEs'' = pre @ ''file'' @ post"
    by blast
  from keyword_match_is_lowercase_substring [where srv = "focused_on ''Tap to SHOW MOREs''"
      and w = start_world, OF poll body ok item] one
  have first: "Request ''POST'' click_url None
     \<in> set (new_events start_world
              (snd (open_icon_pass (focused_on ''Tap to SHOW MOREs'') start_world)))"
    by blast
  from keyword_match_is_lowercase_substring [where srv = "focused_on ''ReUPLOAD ProFILEs''"
      and w = start_world, OF poll body ok item] two three
  have second: "Request ''POST'' click_url None
     \<in> set (new_events start_world
              (snd (upload_pass (focused_on ''ReUPLOAD ProFILEs'') start_world)))"
    by blast
  from first second show ?thesis by simp
qed

text \<open>
  C5. When the health check is answered with status 200 and the body
  \<^verbatim>\<open>{"voiceOverRunning": false}\<close>, and the start request that follows with the body
  \<^verbatim>\<open>{"success": false, "error": "VoiceOver not supported"}\<close>, the whole run of the script
  is: the banner, the health request, the status line ending in \<^verbatim>\<open>Not running\<close>, the start
  request, the line of the failed start, the hint about permissions, and nothing after
  it. Two requests are sent; none of them opens the application, navigates or stops the
  screen reader.
\<close>

theorem start_failure_prints_hint_and_returns:
  assumes "srv 0 = Responds \<lparr>status_code = 200,
                               json = Inr (PDict [(''voiceOverRunning'', PBool False)])\<rparr>"
    and "srv 1 = Responds rsp"
    and "json rsp = Inr (PDict [(''success'', PBool False),
                                (''error'', PStr ''VoiceOver not supported'')])"
  shows "test_voiceover_operations srv =
     \<lparr>sent = 2,
      trace =
        [Print (direct_hit @ '' Starting Python -> TypeScript -> VoiceOver integration test''),
         Print (replicate 60 (CHR ''='')),
         Print ''1. Checking server status...'',
         Request ''GET'' (script_base_url @ ''/health'') None,
         Print (line check_mark '' Server running normally''),
         Print (line bar_chart '' VoiceOver status: Not running''),
         Print (CHR 0x0A # ''2. Starting VoiceOver...''),
         Request ''POST'' (script_base_url @ ''/voiceover/start'') None,
         Print (line cross_mark '' VoiceOver startup failed: VoiceOver not supported''),
         Print (line light_bulb
           '' Please ensure VoiceOver permissions are configured as per README'')]\<rparr>"
proof -
  have hint: "contains ''VoiceOver not supported'' ''VoiceOver not supported''"
    by simp
  have health: "health_step srv
             (emit (Print (replicate 60 (CHR ''='')))
                (emit (Print (direct_hit
                   @ '' Starting Python -> TypeScript -> VoiceOver integration test''))
                   start_world))
           = (Proceed, \<lparr>sent = 1,
      trace =
        [Print (direct_hit @ '' Starting Python -> TypeScript -> VoiceOver integration test''),
         Print (replicate 60 (CHR ''='')),
         Print ''1. Checking server status...'',
         Request ''GET'' (script_base_url @ ''/health'') None,
         Print (line check_mark '' Server running normally''),
         Print (line bar_chart '' VoiceOver status: Not running'')]\<rparr>)"
    using assms(1)
    by (simp add: health_step_def health_try_def io_defs start_world_def dict_get_def line_def)
  show ?thesis
    unfolding test_voiceover_operations_def health
    using assms(2,3) hint
    by (simp add: start_step_def start_try_def io_defs dict_get_def line_def)
qed

theorem start_failure_prints_hint_and_returns_witness:
  "test_voiceover_operations unsupported_server =
     \<lparr>sent = 2,
      trace =
        [Print (direct_hit @ '' Starting Python -> TypeScript -> VoiceOver integration test''),
         Print (replicate 60 (CHR ''='')),
         Print ''1. Checking server status...'',
         Request ''GET'' ''http://localhost:3000/health'' None,
         Print (line check_mark '' Server running normally''),
         Print (line bar_chart '' VoiceOver status: Not running''),
         Print (CHR 0x0A # ''2. Starting VoiceOver...''),
         Request ''POST'' ''http://localhost:3000/voiceover/start'' None,
         Print (line cross_mark '' VoiceOver startup failed: VoiceOver not supported''),
         Print (line light_bulb
           '' Please ensure VoiceOver permissions are configured as per README'')]\<rparr>"
proof -
  have health: "unsupported_server 0
      = Responds \<lparr>status_code = 200,
                  json = Inr (PDict [(''voiceOverRunning'', PBool False)])\<rparr>"
    by (simp add: unsupported_server_def ok_response_def)
  have start: "unsupported_server 1
      = Responds \<lparr>status_code = 200,
                  json = Inr (PDict [(''success'', PBool False),
                                     (''error'', PStr ''VoiceOver not supported'')])\<rparr>"
    by (simp add: unsupported_server_def ok_response_def)
  have body: "json \<lparr>status_code = 200,
                    json = Inr (PDict [(''success'', PBool False),
                                       (''error'', PStr ''VoiceOver not supported'')])\<rparr>
      = Inr (PDict [(''success'', PBool False), (''error'', PStr ''VoiceOver not supported'')])"
    by simp
  from start_failure_prints_hint_and_returns [OF health start body]
  show ?thesis by (simp add: script_base_url_def)
qed

text \<open>
  C6, as amended. The first navigation loop ends in one of four ways: an exception raised
  by a request or by reading a response; exhaustion of the 5 attempts; a keyword match on
  the polled current item, before the 5th attempt was used up; or a poll whose body has no
  true \<^verbatim>\<open>success\<close>, on which the loop breaks at once. On every successful poll without the
  keyword whose following request to the next endpoint returns, the pass sends that
  request and sleeps 0.5 s, and the loop goes on with the counter incremented.
\<close>

theorem open_icon_loop_exits_and_advances:
  assumes "open_icon_loop srv False 0 w = (r, w')"
  shows "((\<exists>e. r = Inl e)
        \<or> r = Inr (False, 5)
        \<or> (\<exists>a w1 t. a < 5 \<and> r = Inr (True, a)
              \<and> open_icon_pass srv w1 = (Inr (Stop True), w')
              \<and> polled_text (srv (sent w1)) = Some t \<and> contains ''show more'' t)
        \<or> (\<exists>a w1. a < 5 \<and> r = Inr (False, a)
              \<and> open_icon_pass srv w1 = (Inr (Stop False), w')
              \<and> poll_refused (srv (sent w1))))
     \<and> (\<forall>a w0 t rsp.
           a < 5 \<and> polled_text (srv (sent w0)) = Some t \<and> \<not> contains ''show more'' t
             \<and> srv (sent w0 + 1) = Responds rsp \<longrightarrow>
           (\<exists>focus. open_icon_loop srv False a w0 =
              open_icon_loop srv False (a + 1)
                \<lparr>sent = sent w0 + 2,
                 trace = trace w0 @ [Request ''GET'' current_url None, Print focus,
                                     Request ''POST'' next_url None, Sleep 500]\<rparr>))"
proof
  from open_icon_loop_exits [OF assms]
  consider (raised) e where "r = Inl e"
    | (exhausted) "r = Inr (False, max_attempts)"
    | (matched) a w1 where "a < max_attempts" "r = Inr (True, a)"
        "open_icon_pass srv w1 = (Inr (Stop True), w')"
    | (refused) a w1 where "a < max_attempts" "r = Inr (False, a)"
        "open_icon_pass srv w1 = (Inr (Stop False), w')"
    by (auto simp: max_attempts_def)
  then show "(\<exists>e. r = Inl e)
        \<or> r = Inr (False, 5)
        \<or> (\<exists>a w1 t. a < 5 \<and> r = Inr (True, a)
              \<and> open_icon_pass srv w1 = (Inr (Stop True), w')
              \<and> polled_text (srv (sent w1)) = Some t \<and> contains ''show more'' t)
        \<or> (\<exists>a w1. a < 5 \<and> r = Inr (False, a)
              \<and> open_icon_pass srv w1 = (Inr (Stop False), w')
              \<and> poll_refused (srv (sent w1)))"
  proof cases
    case raised
    then show ?thesis by blast
  next
    case exhausted
    then show ?thesis by (simp add: max_attempts_def)
  next
    case matched
    from open_icon_pass_found [OF matched(3)] obtain t
      where "polled_text (srv (sent w1)) = Some t" "contains ''show more'' t" by blast
    with matched have "\<exists>a w1 t. a < 5 \<and> r = Inr (True, a)
              \<and> open_icon_pass srv w1 = (Inr (Stop True), w')
              \<and> polled_text (srv (sent w1)) = Some t \<and> contains ''show more'' t"
      unfolding max_attempts_def by blast
    then show ?thesis by blast
  next
    case refused
    from open_icon_pass_refused [OF refused(3)] have "poll_refused (srv (sent w1))" .
    with refused have "\<exists>a w1. a < 5 \<and> r = Inr (False, a)
              \<and> open_icon_pass srv w1 = (Inr (Stop False), w')
              \<and> poll_refused (srv (sent w1))"
      unfolding max_attempts_def by blast
    then show ?thesis by blast
  qed
next
  show "\<forall>a w0 t rsp.
           a < 5 \<and> polled_text (srv (sent w0)) = Some t \<and> \<not> contains ''show more'' t
             \<and> srv (sent w0 + 1) = Responds rsp \<longrightarrow>
           (\<exists>focus. open_icon_loop srv False a w0 =
              open_icon_loop srv False (a + 1)
                \<lparr>sent = sent w0 + 2,
                 trace = trace w0 @ [Request ''GET'' current_url None, Print focus,
                                     Request ''POST'' next_url None, Sleep 500]\<rparr>)"
  proof (intro allI impI)
    fix a :: nat and w0 :: world and t :: string and rsp :: response
    assume h: "a < 5 \<and> polled_text (srv (sent w0)) = Some t \<and> \<not> contains ''show more'' t
             \<and> srv (sent w0 + 1) = Responds rsp"
    then obtain focus where pass: "open_icon_pass srv w0 =
       (Inr Advance,
        \<lparr>sent = sent w0 + 2,
         trace = trace w0 @ [Request ''GET'' current_url None, Print focus,
                             Request ''POST'' next_url None, Sleep 500]\<rparr>)"
      using open_icon_pass_advance [of srv w0 t rsp] by blast
    from h have "a < max_attempts" by (simp add: max_attempts_def)
    with pass have "open_icon_loop srv False a w0 =
              open_icon_loop srv False (a + 1)
                \<lparr>sent = sent w0 + 2,
                 trace = trace w0 @ [Request ''GET'' current_url None, Print focus,
                                     Request ''POST'' next_url None, Sleep 500]\<rparr>"
      by (subst open_icon_loop.simps) simp
    then show "\<exists>focus. open_icon_loop srv False a w0 =
              open_icon_loop srv False (a + 1)
                \<lparr>sent = sent w0 + 2,
                 trace = trace w0 @ [Request ''GET'' current_url None, Print focus,
                                     Request ''POST'' next_url None, Sleep 500]\<rparr>"
      by blast
  qed
qed

theorem open_icon_loop_exits_and_advances_witness:
  "open_icon_loop losing_focus False 0 start_world =
     (Inr (False, 1),
      \<lparr>sent = 3,
       trace = [Request ''GET'' current_url None,
                Print (line replacement_char '' Current focus: Home''),
                Request ''POST'' next_url None,
                Sleep 500,
                Request ''GET'' current_url None,
                Print (line cross_mark '' Unable to get current element: gone'')]\<rparr>)
   \<and> (\<exists>w1. open_icon_pass losing_focus w1 =
              (Inr (Stop False),
               \<lparr>sent = 3,
                trace = [Request ''GET'' current_url None,
                         Print (line replacement_char '' Current focus: Home''),
                         Request ''POST'' next_url None,
                         Sleep 500,
                         Request ''GET'' current_url None,
                         Print (line cross_mark '' Unable to get current element: gone'')]\<rparr>)
            \<and> poll_refused (losing_focus (sent w1)))"
proof -
  have no_match: "\<not> contains ''show more'' (str_lower ''Home'')"
    by code_simp
  have run: "open_icon_loop losing_focus False 0 start_world =
     (Inr (False, 1),
      \<lparr>sent = 3,
       trace = [Request ''GET'' current_url None,
                Print (line replacement_char '' Current focus: Home''),
                Request ''POST'' next_url None,
                Sleep 500,
                Request ''GET'' current_url None,
                Print (line cross_mark '' Unable to get current element: gone'')]\<rparr>)"
    using no_match
    by (simp add: open_icon_pass_def io_defs losing_focus_def ok_response_def item_body_def
        dict_get_def max_attempts_def start_world_def line_def)
  from open_icon_loop_exits_and_advances [OF run] run show ?thesis by auto
qed

text \<open>
  C6, as stated, fails: when the first poll is answered without a true \<^verbatim>\<open>success\<close>, the
  loop ends at once, with no match and with none of the 5 attempts used.
\<close>

theorem refused_poll_ends_loop_early:
  "open_icon_loop refusing_server False 0 start_world =
     (Inr (False, 0),
      \<lparr>sent = 1,
       trace = [Request ''GET'' current_url None,
                Print (line cross_mark '' Unable to get current element: None'')]\<rparr>)"
  by (simp add: open_icon_pass_def io_defs refusing_server_def ok_response_def start_world_def
      max_attempts_def dict_get_def line_def)

end
